theory Spec2Isabelle
  imports Complex_Main
begin

section \<open>The rate limiter of \<^verbatim>\<open>src/security/rate_limiter.py\<close>\<close>

text \<open>
  The development embeds the classes \<^verbatim>\<open>RateLimitConfig\<close>, \<^verbatim>\<open>RateLimitState\<close>,
  \<^verbatim>\<open>RedisRateLimitBackend\<close> and \<^verbatim>\<open>RateLimiter\<close>. Conventions:

  \<^item> Python \<^verbatim>\<open>int\<close> is \<open>int\<close>. Python \<^verbatim>\<open>float\<close> (timestamps, the burst multiplier, retry hints)
    is \<open>rat\<close>: every finite float is a rational, and the arithmetic is taken exact, so
    rounding of floating-point operations is not modelled.
  \<^item> A raised \<^verbatim>\<open>RateLimitExceeded\<close> is the \<open>Inl\<close> branch of a sum. An exception does not
    undo the mutations made before it, so every operation returns its result together
    with the state it leaves behind.
  \<^item> \<^verbatim>\<open>time.time()\<close> is an input. The reading taken at the start of an operation is \<open>now\<close>;
    the readings taken later by the \<^verbatim>\<open>default_factory\<close> of \<^verbatim>\<open>RateLimitState\<close>, when a
    \<^verbatim>\<open>defaultdict\<close> creates an entry, are \<open>created_minute\<close> and \<open>created_hour\<close>.
  \<^item> The \<^verbatim>\<open>asyncio.Lock\<close> serialises the in-memory operations; the model is sequential.
    Log calls and the text of exception messages are left out.
  \<^item> The Redis server is a key-value map with the time-to-live last set on each key;
    the passing of time on the server (expiry of keys) is not modelled. A failing server
    or a missing \<^verbatim>\<open>redis\<close> package is a flag of the server record.
\<close>

subsection \<open>Numbers and strings\<close>

definition py_int :: "rat \<Rightarrow> int" where
  \<comment> \<open>\<^verbatim>\<open>int(x)\<close> on a float: truncation towards zero\<close>
  "py_int x = (if 0 \<le> x then \<lfloor>x\<rfloor> else \<lceil>x\<rceil>)"

definition py_floordiv :: "rat \<Rightarrow> rat \<Rightarrow> int" where
  \<comment> \<open>\<^verbatim>\<open>int(x // y)\<close>\<close>
  "py_floordiv x y = \<lfloor>x / y\<rfloor>"

definition py_mod :: "rat \<Rightarrow> rat \<Rightarrow> rat" where
  \<comment> \<open>\<^verbatim>\<open>x % y\<close>\<close>
  "py_mod x y = x - y * of_int \<lfloor>x / y\<rfloor>"

definition digit_char :: "nat \<Rightarrow> char" where
  "digit_char d = char_of (48 + d)"

function str_nat :: "nat \<Rightarrow> string" where
  "str_nat n = (if n < 10 then [digit_char n] else str_nat (n div 10) @ [digit_char (n mod 10)])"
  by pat_completeness auto
termination
  by (relation "measure id") auto

declare str_nat.simps [simp del]

definition str_int :: "int \<Rightarrow> string" where
  \<comment> \<open>\<^verbatim>\<open>str(i)\<close>, as the f-strings of the window keys use it\<close>
  "str_int i = (if i < 0 then ''-'' @ str_nat (nat (- i)) else str_nat (nat i))"

definition truthy :: "string option \<Rightarrow> bool" where
  \<comment> \<open>the truth value of an \<^verbatim>\<open>Optional[str]\<close>: \<^verbatim>\<open>None\<close> and the empty string are false\<close>
  "truthy x = (case x of None \<Rightarrow> False | Some s \<Rightarrow> s \<noteq> [])"

subsection \<open>Data\<close>

datatype RateLimitExceeded =
  RateLimitExceeded (limit_type: string) (retry_after: "rat option")

record RateLimitConfig =
  enabled :: bool
  requests_per_minute :: int
  requests_per_hour :: int
  tokens_per_minute :: int
  tokens_per_hour :: int
  max_concurrent_requests :: int
  per_user :: bool
  burst_multiplier :: rat
  use_redis :: bool
  redis_host :: string
  redis_port :: int
  redis_db :: int
  redis_prefix :: string
  require_user_id :: bool
  fallback_to_session :: bool

definition default_config :: RateLimitConfig where
  "default_config = \<lparr>enabled = True, requests_per_minute = 60, requests_per_hour = 1000,
     tokens_per_minute = 100000, tokens_per_hour = 1000000, max_concurrent_requests = 10,
     per_user = True, burst_multiplier = 3 / 2, use_redis = False, redis_host = ''localhost'',
     redis_port = 6379, redis_db = 1, redis_prefix = ''ratelimit:'',
     require_user_id = False, fallback_to_session = True\<rparr>"

record RateLimitState =
  count :: int
  tokens :: int
  window_start :: rat
  concurrent :: int

definition new_RateLimitState :: "rat \<Rightarrow> RateLimitState" where
  \<comment> \<open>\<^verbatim>\<open>RateLimitState()\<close>, whose \<^verbatim>\<open>default_factory\<close> reads the clock as \<open>t\<close>\<close>
  "new_RateLimitState t = \<lparr>count = 0, tokens = 0, window_start = t, concurrent = 0\<rparr>"

record clock =
  now :: rat
  created_minute :: rat
  created_hour :: rat

record redis_server =
  package_installed :: bool
  reachable :: bool
  kv :: "string \<rightharpoonup> int"
  ttl :: "string \<rightharpoonup> int"

record RedisRateLimitBackend =
  backend_config :: RateLimitConfig
  client :: bool
  initialized :: bool

record RateLimiter =
  config :: RateLimitConfig
  enabled_flag :: bool
  redis_backend :: "RedisRateLimitBackend option"
  user_minute_state :: "string \<rightharpoonup> RateLimitState"
  user_hour_state :: "string \<rightharpoonup> RateLimitState"
  global_minute_state :: RateLimitState
  global_hour_state :: RateLimitState
  concurrent_requests :: "string \<rightharpoonup> int"
  global_concurrent :: int

subsection \<open>\<^verbatim>\<open>RedisRateLimitBackend\<close>\<close>

definition RedisRateLimitBackend_init :: "RateLimitConfig \<Rightarrow> RedisRateLimitBackend" where
  "RedisRateLimitBackend_init cfg = \<lparr>backend_config = cfg, client = False, initialized = False\<rparr>"

definition ensure_connected :: "RedisRateLimitBackend \<Rightarrow> redis_server \<Rightarrow> bool \<times> RedisRateLimitBackend" where
  \<comment> \<open>\<open>client\<close> is \<^verbatim>\<open>self._client is not None\<close>; the \<^verbatim>\<open>ImportError\<close> branch leaves it as it was\<close>
  "ensure_connected b srv =
     (if initialized b then (client b, b)
      else let b1 = b\<lparr>initialized := True\<rparr> in
        if \<not> package_installed srv then (False, b1)
        else if reachable srv then (True, b1\<lparr>client := True\<rparr>)
        else (False, b1\<lparr>client := False\<rparr>))"

definition make_key :: "RedisRateLimitBackend \<Rightarrow> string \<Rightarrow> string \<Rightarrow> string" where
  "make_key b identifier window = redis_prefix (backend_config b) @ identifier @ '':'' @ window"

definition get_count :: "RedisRateLimitBackend \<Rightarrow> redis_server \<Rightarrow> string \<Rightarrow> string \<Rightarrow> int \<times> RedisRateLimitBackend" where
  "get_count b srv identifier window =
     (case ensure_connected b srv of
        (False, b1) \<Rightarrow> (0, b1)
      | (True, b1) \<Rightarrow>
          if reachable srv then
            (case kv srv (make_key b1 identifier window) of None \<Rightarrow> (0, b1) | Some c \<Rightarrow> (c, b1))
          else (0, b1))"

definition increment :: "RedisRateLimitBackend \<Rightarrow> redis_server \<Rightarrow> string \<Rightarrow> string \<Rightarrow> int \<Rightarrow> int
    \<Rightarrow> int \<times> RedisRateLimitBackend \<times> redis_server" where
  "increment b srv identifier window ttl_secs amount =
     (case ensure_connected b srv of
        (False, b1) \<Rightarrow> (0, b1, srv)
      | (True, b1) \<Rightarrow>
          if reachable srv then
            (let key = make_key b1 identifier window;
                 c = (case kv srv key of None \<Rightarrow> 0 | Some c \<Rightarrow> c) + amount
             in (c, b1, srv\<lparr>kv := (kv srv)(key \<mapsto> c), ttl := (ttl srv)(key \<mapsto> ttl_secs)\<rparr>))
          else (0, b1, srv))"

definition get_concurrent :: "RedisRateLimitBackend \<Rightarrow> redis_server \<Rightarrow> string \<Rightarrow> int \<times> RedisRateLimitBackend" where
  "get_concurrent b srv identifier =
     (case ensure_connected b srv of
        (False, b1) \<Rightarrow> (0, b1)
      | (True, b1) \<Rightarrow>
          if reachable srv then
            (case kv srv (make_key b1 identifier ''concurrent'') of None \<Rightarrow> (0, b1) | Some c \<Rightarrow> (c, b1))
          else (0, b1))"

definition incr_concurrent :: "RedisRateLimitBackend \<Rightarrow> redis_server \<Rightarrow> string \<Rightarrow> int
    \<Rightarrow> int \<times> RedisRateLimitBackend \<times> redis_server" where
  "incr_concurrent b srv identifier ttl_secs =
     (case ensure_connected b srv of
        (False, b1) \<Rightarrow> (0, b1, srv)
      | (True, b1) \<Rightarrow>
          if reachable srv then
            (let key = make_key b1 identifier ''concurrent'';
                 c = (case kv srv key of None \<Rightarrow> 0 | Some c \<Rightarrow> c) + 1
             in (c, b1, srv\<lparr>kv := (kv srv)(key \<mapsto> c), ttl := (ttl srv)(key \<mapsto> ttl_secs)\<rparr>))
          else (0, b1, srv))"

definition decr_concurrent :: "RedisRateLimitBackend \<Rightarrow> redis_server \<Rightarrow> string
    \<Rightarrow> int \<times> RedisRateLimitBackend \<times> redis_server" where
  \<comment> \<open>\<^verbatim>\<open>DECR\<close> keeps the time-to-live of the key, \<^verbatim>\<open>SET\<close> clears it\<close>
  "decr_concurrent b srv identifier =
     (case ensure_connected b srv of
        (False, b1) \<Rightarrow> (0, b1, srv)
      | (True, b1) \<Rightarrow>
          if reachable srv then
            (let key = make_key b1 identifier ''concurrent'';
                 c = (case kv srv key of None \<Rightarrow> 0 | Some c \<Rightarrow> c) - 1
             in if c < 0 then (0, b1, srv\<lparr>kv := (kv srv)(key \<mapsto> 0), ttl := (ttl srv)(key := None)\<rparr>)
                else (c, b1, srv\<lparr>kv := (kv srv)(key \<mapsto> c)\<rparr>))
          else (0, b1, srv))"

subsection \<open>\<^verbatim>\<open>RateLimiter\<close>: construction and identifier resolution\<close>

definition RateLimiter_init :: "RateLimitConfig \<Rightarrow> rat \<Rightarrow> rat \<Rightarrow> RateLimiter" where
  \<comment> \<open>\<open>t_minute\<close>, \<open>t_hour\<close>: the clock readings of the two global \<^verbatim>\<open>RateLimitState()\<close>\<close>
  "RateLimiter_init cfg t_minute t_hour =
     \<lparr>config = cfg, enabled_flag = enabled cfg,
      redis_backend = (if use_redis cfg then Some (RedisRateLimitBackend_init cfg) else None),
      user_minute_state = Map.empty, user_hour_state = Map.empty,
      global_minute_state = new_RateLimitState t_minute,
      global_hour_state = new_RateLimitState t_hour,
      concurrent_requests = Map.empty, global_concurrent = 0\<rparr>"

definition get_identifier :: "RateLimitConfig \<Rightarrow> string option \<Rightarrow> string option
    \<Rightarrow> RateLimitExceeded + string" where
  "get_identifier cfg user_id session_id =
     (if truthy user_id then Inr (the user_id)
      else if require_user_id cfg then Inl (RateLimitExceeded ''authentication'' None)
      else if fallback_to_session cfg \<and> truthy session_id then Inr (''session:'' @ the session_id)
      else Inr ''anonymous'')"

definition redis_active :: "RateLimiter \<Rightarrow> bool" where
  \<comment> \<open>\<^verbatim>\<open>self._redis_backend and self.config.use_redis\<close>\<close>
  "redis_active s = (redis_backend s \<noteq> None \<and> use_redis (config s))"

subsection \<open>In-memory windows\<close>

definition minute_state_ref :: "RateLimiter \<Rightarrow> string \<Rightarrow> rat \<Rightarrow> RateLimitState \<times> RateLimiter" where
  \<comment> \<open>\<^verbatim>\<open>self._user_minute_state[identifier] if self.config.per_user else self._global_minute_state\<close>;
      a \<^verbatim>\<open>defaultdict\<close> stores the entry it creates\<close>
  "minute_state_ref s identifier t =
     (if per_user (config s) then
        (case user_minute_state s identifier of
           Some st \<Rightarrow> (st, s)
         | None \<Rightarrow> (new_RateLimitState t,
                    s\<lparr>user_minute_state := (user_minute_state s)(identifier \<mapsto> new_RateLimitState t)\<rparr>))
      else (global_minute_state s, s))"

definition minute_state_store :: "RateLimiter \<Rightarrow> string \<Rightarrow> RateLimitState \<Rightarrow> RateLimiter" where
  \<comment> \<open>an assignment to a field of the object that \<open>minute_state_ref\<close> returned\<close>
  "minute_state_store s identifier st =
     (if per_user (config s) then s\<lparr>user_minute_state := (user_minute_state s)(identifier \<mapsto> st)\<rparr>
      else s\<lparr>global_minute_state := st\<rparr>)"

definition hour_state_ref :: "RateLimiter \<Rightarrow> string \<Rightarrow> rat \<Rightarrow> RateLimitState \<times> RateLimiter" where
  "hour_state_ref s identifier t =
     (if per_user (config s) then
        (case user_hour_state s identifier of
           Some st \<Rightarrow> (st, s)
         | None \<Rightarrow> (new_RateLimitState t,
                    s\<lparr>user_hour_state := (user_hour_state s)(identifier \<mapsto> new_RateLimitState t)\<rparr>))
      else (global_hour_state s, s))"

definition hour_state_store :: "RateLimiter \<Rightarrow> string \<Rightarrow> RateLimitState \<Rightarrow> RateLimiter" where
  "hour_state_store s identifier st =
     (if per_user (config s) then s\<lparr>user_hour_state := (user_hour_state s)(identifier \<mapsto> st)\<rparr>
      else s\<lparr>global_hour_state := st\<rparr>)"

definition cleanup_windows :: "RateLimiter \<Rightarrow> rat \<Rightarrow> RateLimiter" where
  "cleanup_windows s t =
     s\<lparr>user_minute_state := (\<lambda>k. case user_minute_state s k of
            None \<Rightarrow> None
          | Some v \<Rightarrow> if t - window_start v > 120 then None else Some v),
       user_hour_state := (\<lambda>k. case user_hour_state s k of
            None \<Rightarrow> None
          | Some v \<Rightarrow> if t - window_start v > 7200 then None else Some v),
       concurrent_requests := (\<lambda>k. case concurrent_requests s k of
            None \<Rightarrow> None
          | Some v \<Rightarrow> if v = 0 then None else Some v)\<rparr>"

definition check_concurrent_limit :: "RateLimiter \<Rightarrow> string \<Rightarrow> (RateLimitExceeded + unit) \<times> RateLimiter" where
  \<comment> \<open>reading \<^verbatim>\<open>self._concurrent_requests[identifier]\<close> stores 0 for a missing key\<close>
  "check_concurrent_limit s identifier =
     (let (current, s1) =
            (if per_user (config s) then
               (case concurrent_requests s identifier of
                  Some c \<Rightarrow> (c, s)
                | None \<Rightarrow> (0, s\<lparr>concurrent_requests := (concurrent_requests s)(identifier \<mapsto> 0)\<rparr>))
             else (global_concurrent s, s))
      in if current \<ge> max_concurrent_requests (config s)
         then (Inl (RateLimitExceeded ''concurrent'' (Some 1)), s1)
         else (Inr (), s1))"

definition roll :: "rat \<Rightarrow> rat \<Rightarrow> RateLimitState \<Rightarrow> RateLimitState" where
  \<comment> \<open>\<^verbatim>\<open>if now - st.window_start >= period: st.count = 0; st.window_start = now\<close>\<close>
  "roll period t st =
     (if t - window_start st \<ge> period then st\<lparr>count := 0, window_start := t\<rparr> else st)"

definition check_request_limit :: "RateLimiter \<Rightarrow> string \<Rightarrow> clock \<Rightarrow> (RateLimitExceeded + unit) \<times> RateLimiter" where
  "check_request_limit s identifier clk =
     (let (minute_state0, s1) = minute_state_ref s identifier (created_minute clk);
          minute_state = roll 60 (now clk) minute_state0;
          s2 = minute_state_store s1 identifier minute_state;
          max_requests = py_int (of_int (requests_per_minute (config s)) * burst_multiplier (config s))
      in if count minute_state \<ge> max_requests then
           (Inl (RateLimitExceeded ''requests_per_minute''
                   (Some (max 0 (60 - (now clk - window_start minute_state))))), s2)
         else
           (let (hour_state0, s3) = hour_state_ref s2 identifier (created_hour clk);
                hour_state = roll 3600 (now clk) hour_state0;
                s4 = hour_state_store s3 identifier hour_state
            in if count hour_state \<ge> requests_per_hour (config s) then
                 (Inl (RateLimitExceeded ''requests_per_hour''
                         (Some (max 0 (3600 - (now clk - window_start hour_state))))), s4)
               else (Inr (), s4)))"

definition check_token_limit :: "RateLimiter \<Rightarrow> string \<Rightarrow> int \<Rightarrow> clock \<Rightarrow> (RateLimitExceeded + unit) \<times> RateLimiter" where
  "check_token_limit s identifier tks clk =
     (let (minute_state, s1) = minute_state_ref s identifier (created_minute clk);
          max_tokens = py_int (of_int (tokens_per_minute (config s)) * burst_multiplier (config s))
      in if tokens minute_state + tks > max_tokens then
           (Inl (RateLimitExceeded ''tokens_per_minute''
                   (Some (max 0 (60 - (now clk - window_start minute_state))))), s1)
         else (Inr (), s1))"

definition check_limit_memory :: "RateLimiter \<Rightarrow> string \<Rightarrow> int \<Rightarrow> clock \<Rightarrow> (RateLimitExceeded + bool) \<times> RateLimiter" where
  "check_limit_memory s identifier estimated_tokens clk =
     (case check_concurrent_limit (cleanup_windows s (now clk)) identifier of
        (Inl e, s1) \<Rightarrow> (Inl e, s1)
      | (Inr _, s1) \<Rightarrow>
          (case check_request_limit s1 identifier clk of
             (Inl e, s2) \<Rightarrow> (Inl e, s2)
           | (Inr _, s2) \<Rightarrow>
               if estimated_tokens > 0 then
                 (case check_token_limit s2 identifier estimated_tokens clk of
                    (Inl e, s3) \<Rightarrow> (Inl e, s3)
                  | (Inr _, s3) \<Rightarrow> (Inr True, s3))
               else (Inr True, s2)))"

subsection \<open>The Redis path of \<^verbatim>\<open>check_limit\<close>\<close>

definition check_limit_redis :: "RedisRateLimitBackend \<Rightarrow> redis_server \<Rightarrow> RateLimitConfig \<Rightarrow> string \<Rightarrow> int \<Rightarrow> rat
    \<Rightarrow> (RateLimitExceeded + bool) \<times> RedisRateLimitBackend" where
  \<comment> \<open>\<open>cfg\<close> is \<^verbatim>\<open>self.config\<close> of the limiter; \<open>estimated_tokens\<close> is not read by the source\<close>
  "check_limit_redis b srv cfg identifier estimated_tokens t =
     (let minute_window = ''minute:'' @ str_int (py_floordiv t 60);
          hour_window = ''hour:'' @ str_int (py_floordiv t 3600);
          (conc, b1) = get_concurrent b srv identifier
      in if conc \<ge> max_concurrent_requests cfg then
           (Inl (RateLimitExceeded ''concurrent'' (Some 1)), b1)
         else
           (let (minute_count, b2) = get_count b1 srv identifier minute_window;
                max_requests = py_int (of_int (requests_per_minute cfg) * burst_multiplier cfg)
            in if minute_count \<ge> max_requests then
                 (Inl (RateLimitExceeded ''requests_per_minute'' (Some (60 - py_mod t 60))), b2)
               else
                 (let (hour_count, b3) = get_count b2 srv identifier hour_window
                  in if hour_count \<ge> requests_per_hour cfg then
                       (Inl (RateLimitExceeded ''requests_per_hour'' (Some (3600 - py_mod t 3600))), b3)
                     else (Inr True, b3))))"

subsection \<open>Public operations\<close>

definition check_limit :: "RateLimiter \<Rightarrow> redis_server \<Rightarrow> string option \<Rightarrow> int \<Rightarrow> string option \<Rightarrow> clock
    \<Rightarrow> (RateLimitExceeded + bool) \<times> RateLimiter" where
  \<comment> \<open>the Redis path only reads the server, so the server is not returned\<close>
  "check_limit s srv user_id estimated_tokens session_id clk =
     (if \<not> enabled_flag s then (Inr True, s)
      else case get_identifier (config s) user_id session_id of
        Inl e \<Rightarrow> (Inl e, s)
      | Inr identifier \<Rightarrow>
          (case redis_backend s of
             Some b \<Rightarrow>
               if use_redis (config s) then
                 (let (r, b1) = check_limit_redis b srv (config s) identifier estimated_tokens (now clk)
                  in (r, s\<lparr>redis_backend := Some b1\<rparr>))
               else check_limit_memory s identifier estimated_tokens clk
           | None \<Rightarrow> check_limit_memory s identifier estimated_tokens clk))"

definition record_request :: "RateLimiter \<Rightarrow> redis_server \<Rightarrow> string option \<Rightarrow> int \<Rightarrow> string option \<Rightarrow> clock
    \<Rightarrow> (RateLimitExceeded + unit) \<times> RateLimiter \<times> redis_server" where
  "record_request s srv user_id tokens_used session_id clk =
     (if \<not> enabled_flag s then (Inr (), s, srv)
      else case get_identifier (config s) user_id session_id of
        Inl e \<Rightarrow> (Inl e, s, srv)
      | Inr identifier \<Rightarrow>
          (let memory =
                 (let (minute_state, s1) = minute_state_ref s identifier (created_minute clk);
                      s2 = minute_state_store s1 identifier
                             (minute_state\<lparr>count := count minute_state + 1,
                                            tokens := tokens minute_state + tokens_used\<rparr>);
                      (hour_state, s3) = hour_state_ref s2 identifier (created_hour clk);
                      s4 = hour_state_store s3 identifier
                             (hour_state\<lparr>count := count hour_state + 1,
                                          tokens := tokens hour_state + tokens_used\<rparr>)
                  in (Inr (), s4, srv))
           in case redis_backend s of
             Some b \<Rightarrow>
               if use_redis (config s) then
                 (let minute_window = ''minute:'' @ str_int (py_floordiv (now clk) 60);
                      hour_window = ''hour:'' @ str_int (py_floordiv (now clk) 3600);
                      (_, b1, srv1) = increment b srv identifier minute_window 120 1;
                      (_, b2, srv2) = increment b1 srv1 identifier hour_window 7200 1
                  in (Inr (), s\<lparr>redis_backend := Some b2\<rparr>, srv2))
               else memory
           | None \<Rightarrow> memory))"

definition acquire_concurrent_slot :: "RateLimiter \<Rightarrow> redis_server \<Rightarrow> string option \<Rightarrow> string option
    \<Rightarrow> (RateLimitExceeded + unit) \<times> RateLimiter \<times> redis_server" where
  "acquire_concurrent_slot s srv user_id session_id =
     (if \<not> enabled_flag s then (Inr (), s, srv)
      else case get_identifier (config s) user_id session_id of
        Inl e \<Rightarrow> (Inl e, s, srv)
      | Inr identifier \<Rightarrow>
          (let memory =
                 (if per_user (config s) then
                    (Inr (), s\<lparr>concurrent_requests := (concurrent_requests s)(identifier \<mapsto>
                        (case concurrent_requests s identifier of None \<Rightarrow> 0 | Some c \<Rightarrow> c) + 1)\<rparr>, srv)
                  else (Inr (), s\<lparr>global_concurrent := global_concurrent s + 1\<rparr>, srv))
           in case redis_backend s of
             Some b \<Rightarrow>
               if use_redis (config s) then
                 (let (_, b1, srv1) = incr_concurrent b srv identifier 300
                  in (Inr (), s\<lparr>redis_backend := Some b1\<rparr>, srv1))
               else memory
           | None \<Rightarrow> memory))"

definition release_concurrent_slot :: "RateLimiter \<Rightarrow> redis_server \<Rightarrow> string option \<Rightarrow> string option
    \<Rightarrow> (RateLimitExceeded + unit) \<times> RateLimiter \<times> redis_server" where
  "release_concurrent_slot s srv user_id session_id =
     (if \<not> enabled_flag s then (Inr (), s, srv)
      else case get_identifier (config s) user_id session_id of
        Inl e \<Rightarrow> (Inl e, s, srv)
      | Inr identifier \<Rightarrow>
          (let memory =
                 (if per_user (config s) then
                    (Inr (), s\<lparr>concurrent_requests := (concurrent_requests s)(identifier \<mapsto>
                        max 0 ((case concurrent_requests s identifier of None \<Rightarrow> 0 | Some c \<Rightarrow> c) - 1))\<rparr>, srv)
                  else (Inr (), s\<lparr>global_concurrent := max 0 (global_concurrent s - 1)\<rparr>, srv))
           in case redis_backend s of
             Some b \<Rightarrow>
               if use_redis (config s) then
                 (let (_, b1, srv1) = decr_concurrent b srv identifier
                  in (Inr (), s\<lparr>redis_backend := Some b1\<rparr>, srv1))
               else memory
           | None \<Rightarrow> memory))"

subsection \<open>Observations and drivers used in the statements\<close>

definition minute_state_of :: "RateLimiter \<Rightarrow> string \<Rightarrow> RateLimitState option" where
  \<comment> \<open>the minute window that the limiter holds for an identifier, without creating it\<close>
  "minute_state_of s identifier =
     (if per_user (config s) then user_minute_state s identifier else Some (global_minute_state s))"

definition hour_state_of :: "RateLimiter \<Rightarrow> string \<Rightarrow> RateLimitState option" where
  "hour_state_of s identifier =
     (if per_user (config s) then user_hour_state s identifier else Some (global_hour_state s))"

definition count_of :: "RateLimitState option \<Rightarrow> int" where
  \<comment> \<open>a window that does not exist yet counts as zero, as \<^verbatim>\<open>RateLimitState()\<close> would\<close>
  "count_of w = (case w of None \<Rightarrow> 0 | Some st \<Rightarrow> count st)"

definition tokens_of :: "RateLimitState option \<Rightarrow> int" where
  "tokens_of w = (case w of None \<Rightarrow> 0 | Some st \<Rightarrow> tokens st)"

definition concurrency_counter :: "RateLimiter \<Rightarrow> redis_server \<Rightarrow> string \<Rightarrow> int" where
  \<comment> \<open>the in-flight counter of the active backend: the Redis key or the in-memory counter\<close>
  "concurrency_counter s srv identifier =
     (let memory = (if per_user (config s)
                    then (case concurrent_requests s identifier of None \<Rightarrow> 0 | Some c \<Rightarrow> c)
                    else global_concurrent s)
      in case redis_backend s of
        Some b \<Rightarrow>
          if use_redis (config s)
          then (case kv srv (make_key b identifier ''concurrent'') of None \<Rightarrow> 0 | Some c \<Rightarrow> c)
          else memory
      | None \<Rightarrow> memory)"

datatype slot_op = Acquire | Release

fun run_slot_ops :: "slot_op list \<Rightarrow> string option \<Rightarrow> string option \<Rightarrow> RateLimiter \<times> redis_server
    \<Rightarrow> RateLimiter \<times> redis_server" where
  "run_slot_ops [] user_id session_id w = w"
| "run_slot_ops (Acquire # ops) user_id session_id (s, srv) =
     (case acquire_concurrent_slot s srv user_id session_id of
        (_, s1, srv1) \<Rightarrow> run_slot_ops ops user_id session_id (s1, srv1))"
| "run_slot_ops (Release # ops) user_id session_id (s, srv) =
     (case release_concurrent_slot s srv user_id session_id of
        (_, s1, srv1) \<Rightarrow> run_slot_ops ops user_id session_id (s1, srv1))"

fun paired :: "nat \<Rightarrow> slot_op list \<Rightarrow> bool" where
  \<comment> \<open>with \<open>n\<close> slots open, every release follows its acquire and none stays open\<close>
  "paired n [] = (n = 0)"
| "paired n (Acquire # ops) = paired (Suc n) ops"
| "paired n (Release # ops) = (0 < n \<and> paired (n - 1) ops)"

fun admit_rounds :: "nat \<Rightarrow> string option \<Rightarrow> string option \<Rightarrow> clock \<Rightarrow> RateLimiter \<times> redis_server
    \<Rightarrow> bool \<times> RateLimiter \<times> redis_server" where
  \<comment> \<open>\<open>n\<close> requests, each checked and then recorded; the flag tells whether every check passed\<close>
  "admit_rounds 0 user_id session_id clk (s, srv) = (True, s, srv)"
| "admit_rounds (Suc n) user_id session_id clk (s, srv) =
     (case check_limit s srv user_id 0 session_id clk of
        (Inl e, s1) \<Rightarrow> (False, s1, srv)
      | (Inr _, s1) \<Rightarrow>
          (case record_request s1 srv user_id 0 session_id clk of
             (_, s2, srv2) \<Rightarrow> admit_rounds n user_id session_id clk (s2, srv2)))"

definition memory_concurrent :: "RateLimiter \<Rightarrow> string \<Rightarrow> int" where
  \<comment> \<open>the in-memory in-flight counter, a missing entry read as 0\<close>
  "memory_concurrent s identifier =
     (if per_user (config s)
      then (case concurrent_requests s identifier of None \<Rightarrow> 0 | Some c \<Rightarrow> c)
      else global_concurrent s)"

text \<open>
  The decision that the statements compare \<^verbatim>\<open>check_limit\<close> with: the limits in their
  order, each against its ceiling, giving the \<^verbatim>\<open>limit_type\<close> of the first one exceeded.
\<close>

definition decide :: "RateLimitConfig \<Rightarrow> int \<Rightarrow> int \<Rightarrow> int \<Rightarrow> int \<Rightarrow> int \<Rightarrow> string option" where
  "decide cfg conc minute_count hour_count minute_tokens estimated_tokens =
     (if conc \<ge> max_concurrent_requests cfg then Some ''concurrent''
      else if minute_count \<ge> py_int (of_int (requests_per_minute cfg) * burst_multiplier cfg)
        then Some ''requests_per_minute''
      else if hour_count \<ge> requests_per_hour cfg then Some ''requests_per_hour''
      else if estimated_tokens > 0 \<and>
              minute_tokens + estimated_tokens > py_int (of_int (tokens_per_minute cfg) * burst_multiplier cfg)
        then Some ''tokens_per_minute''
      else None)"

definition kind_of :: "RateLimitExceeded + bool \<Rightarrow> string option" where
  "kind_of r = (case r of Inl e \<Rightarrow> Some (limit_type e) | Inr _ \<Rightarrow> None)"

definition live :: "RedisRateLimitBackend \<Rightarrow> redis_server \<Rightarrow> bool" where
  \<comment> \<open>the backend's calls reach the server: it is reachable, and the client exists or will be created\<close>
  "live b srv = (reachable srv \<and> (if initialized b then client b else package_installed srv))"

definition redis_read :: "RedisRateLimitBackend \<Rightarrow> redis_server \<Rightarrow> string \<Rightarrow> int" where
  \<comment> \<open>what a read of a counter returns: the stored value, 0 for a missing key or a failed call\<close>
  "redis_read b srv key = (if live b srv then (case kv srv key of None \<Rightarrow> 0 | Some c \<Rightarrow> c) else 0)"

definition minute_window_start :: "RateLimiter \<Rightarrow> string \<Rightarrow> rat \<Rightarrow> rat option" where
  \<comment> \<open>start of the current minute window: of the Redis key \<^verbatim>\<open>minute:{int(now // 60)}\<close>, or the
      \<^verbatim>\<open>window_start\<close> of the in-memory state\<close>
  "minute_window_start s identifier t =
     (if redis_active s then Some (60 * of_int (py_floordiv t 60))
      else map_option window_start (minute_state_of s identifier))"

definition hour_window_start :: "RateLimiter \<Rightarrow> string \<Rightarrow> rat \<Rightarrow> rat option" where
  "hour_window_start s identifier t =
     (if redis_active s then Some (3600 * of_int (py_floordiv t 3600))
      else map_option window_start (hour_state_of s identifier))"

definition backend_wf :: "RedisRateLimitBackend \<Rightarrow> bool" where
  \<comment> \<open>a client exists only after \<^verbatim>\<open>_ensure_connected\<close> has run, as in every state the code produces\<close>
  "backend_wf b = (initialized b \<or> \<not> client b)"

definition clock_at :: "rat \<Rightarrow> clock" where
  \<comment> \<open>an operation during which every reading of the clock is \<open>t\<close>\<close>
  "clock_at t = \<lparr>now = t, created_minute = t, created_hour = t\<rparr>"

definition server_up :: redis_server where
  "server_up = \<lparr>package_installed = True, reachable = True, kv = Map.empty, ttl = Map.empty\<rparr>"

definition server_down :: redis_server where
  "server_down = \<lparr>package_installed = True, reachable = False, kv = Map.empty, ttl = Map.empty\<rparr>"

section \<open>Properties\<close>

lemmas ops_defs = check_limit_def record_request_def check_limit_memory_def check_limit_redis_def
  check_concurrent_limit_def check_request_limit_def check_token_limit_def cleanup_windows_def
  minute_state_ref_def minute_state_store_def hour_state_ref_def hour_state_store_def roll_def
  get_identifier_def truthy_def RateLimiter_init_def default_config_def new_RateLimitState_def
  clock_at_def py_int_def get_concurrent_def get_count_def increment_def ensure_connected_def
  RedisRateLimitBackend_init_def server_up_def server_down_def minute_state_of_def hour_state_of_def
  count_of_def tokens_of_def

subsection \<open>Case analysis of the in-memory checks\<close>

lemma cleanup_config [simp]: "config (cleanup_windows s t) = config s"
  by (simp add: cleanup_windows_def)

lemma check_concurrent_limit_cases:
  "check_concurrent_limit s i = (r, s1) \<Longrightarrow>
     config s1 = config s \<and> user_minute_state s1 = user_minute_state s \<and>
     user_hour_state s1 = user_hour_state s \<and> global_minute_state s1 = global_minute_state s \<and>
     global_hour_state s1 = global_hour_state s \<and> redis_backend s1 = redis_backend s \<and>
     enabled_flag s1 = enabled_flag s \<and>
     memory_concurrent s1 i = memory_concurrent s i \<and>
     (r = (if memory_concurrent s i \<ge> max_concurrent_requests (config s)
           then Inl (RateLimitExceeded ''concurrent'' (Some 1)) else Inr ()))"
  by (auto simp: check_concurrent_limit_def memory_concurrent_def Let_def split: option.splits if_splits)

lemma check_request_limit_cases:
  "check_request_limit s i clk = (r, s2) \<Longrightarrow>
     config s2 = config s \<and> concurrent_requests s2 = concurrent_requests s \<and>
     global_concurrent s2 = global_concurrent s \<and> redis_backend s2 = redis_backend s \<and>
     enabled_flag s2 = enabled_flag s \<and>
     (\<exists>m. minute_state_of s2 i = Some m \<and>
        m = roll 60 (now clk) (case minute_state_of s i of None \<Rightarrow> new_RateLimitState (created_minute clk) | Some st \<Rightarrow> st) \<and>
        (if count m \<ge> py_int (of_int (requests_per_minute (config s)) * burst_multiplier (config s))
         then r = Inl (RateLimitExceeded ''requests_per_minute'' (Some (max 0 (60 - (now clk - window_start m))))) \<and>
              hour_state_of s2 i = hour_state_of s i
         else (\<exists>h. hour_state_of s2 i = Some h \<and>
                h = roll 3600 (now clk) (case hour_state_of s i of None \<Rightarrow> new_RateLimitState (created_hour clk) | Some st \<Rightarrow> st) \<and>
                r = (if count h \<ge> requests_per_hour (config s)
                     then Inl (RateLimitExceeded ''requests_per_hour'' (Some (max 0 (3600 - (now clk - window_start h)))))
                     else Inr ()))))"
  by (auto simp: check_request_limit_def minute_state_ref_def minute_state_store_def
        hour_state_ref_def hour_state_store_def minute_state_of_def hour_state_of_def Let_def
        split: option.splits if_splits prod.splits)

lemma check_token_limit_cases:
  "check_token_limit s i tk clk = (r, s3) \<Longrightarrow> minute_state_of s i = Some m \<Longrightarrow>
     s3 = s \<and>
     r = (if tokens m + tk > py_int (of_int (tokens_per_minute (config s)) * burst_multiplier (config s))
          then Inl (RateLimitExceeded ''tokens_per_minute'' (Some (max 0 (60 - (now clk - window_start m)))))
          else Inr ())"
  by (auto simp: check_token_limit_def minute_state_ref_def minute_state_of_def Let_def
        split: option.splits if_splits prod.splits)


lemma check_request_limit_others:
  "check_request_limit s i clk = (r, s2) \<Longrightarrow> per_user (config s) \<Longrightarrow> j \<noteq> i \<Longrightarrow>
     minute_state_of s2 j = minute_state_of s j \<and> hour_state_of s2 j = hour_state_of s j"
  by (auto simp: check_request_limit_def minute_state_ref_def minute_state_store_def
        hour_state_ref_def hour_state_store_def minute_state_of_def hour_state_of_def Let_def
        split: option.splits if_splits prod.splits)

lemma state_of_global:
  "\<not> per_user (config s) \<Longrightarrow>
     minute_state_of s j = minute_state_of s i \<and> hour_state_of s j = hour_state_of s i"
  by (simp add: minute_state_of_def hour_state_of_def)

lemma state_of_cong:
  "config s1 = config s \<Longrightarrow> user_minute_state s1 = user_minute_state s \<Longrightarrow>
   user_hour_state s1 = user_hour_state s \<Longrightarrow> global_minute_state s1 = global_minute_state s \<Longrightarrow>
   global_hour_state s1 = global_hour_state s \<Longrightarrow>
     minute_state_of s1 j = minute_state_of s j \<and> hour_state_of s1 j = hour_state_of s j"
  by (simp add: minute_state_of_def hour_state_of_def)

lemma memory_concurrent_cong:
  "config s1 = config s \<Longrightarrow> concurrent_requests s1 = concurrent_requests s \<Longrightarrow>
   global_concurrent s1 = global_concurrent s \<Longrightarrow> memory_concurrent s1 j = memory_concurrent s j"
  by (simp add: memory_concurrent_def)

lemma check_limit_memory_result:
  assumes "check_limit_memory s i est clk = (r, s')"
  shows "config s' = config s \<and> redis_backend s' = redis_backend s \<and> enabled_flag s' = enabled_flag s \<and>
         kind_of r = decide (config s) (memory_concurrent s' i) (count_of (minute_state_of s' i))
                       (count_of (hour_state_of s' i)) (tokens_of (minute_state_of s' i)) est \<and>
         (\<forall>b. r = Inr b \<longrightarrow> b)"
proof -
  define s0 where "s0 = cleanup_windows s (now clk)"
  obtain r1 s1 where c1: "check_concurrent_limit s0 i = (r1, s1)" by (cases "check_concurrent_limit s0 i")
  note f1 = check_concurrent_limit_cases [OF c1]
  have cfg0: "config s0 = config s" "redis_backend s0 = redis_backend s" "enabled_flag s0 = enabled_flag s"
    by (simp_all add: s0_def cleanup_windows_def)
  show ?thesis
  proof (cases r1)
    case (Inl e)
    with assms c1 have "r = Inl e" "s' = s1" by (simp_all add: check_limit_memory_def s0_def)
    with f1 Inl cfg0 show ?thesis
      by (auto simp: kind_of_def decide_def split: if_splits)
  next
    case (Inr u)
    with f1 have conc: "\<not> memory_concurrent s0 i \<ge> max_concurrent_requests (config s0)"
      by (auto split: if_splits)
    obtain r2 s2 where c2: "check_request_limit s1 i clk = (r2, s2)" by (cases "check_request_limit s1 i clk")
    note f2 = check_request_limit_cases [OF c2]
    from f2 obtain m where m: "minute_state_of s2 i = Some m" by blast
    have "memory_concurrent s2 i = memory_concurrent s1 i"
      using f2 by (intro memory_concurrent_cong) simp_all
    with f1 have mc2: "memory_concurrent s2 i = memory_concurrent s0 i" by simp
    show ?thesis
    proof (cases r2)
      case (Inl e)
      with assms c1 c2 Inr have rs: "r = Inl e" "s' = s2" by (simp_all add: check_limit_memory_def s0_def)
      from f2 Inl m show ?thesis
        unfolding rs kind_of_def decide_def using conc mc2 f1 cfg0
        by (auto simp: count_of_def split: if_splits)
    next
      case Inr2: (Inr u2)
      from f2 Inr2 m obtain h where h: "hour_state_of s2 i = Some h"
        and ok: "\<not> count m \<ge> py_int (of_int (requests_per_minute (config s1)) * burst_multiplier (config s1))"
                "\<not> count h \<ge> requests_per_hour (config s1)"
        by (auto split: if_splits)
      show ?thesis
      proof (cases "est > 0")
        case False
        with assms c1 c2 Inr Inr2 have rs: "r = Inr True" "s' = s2"
          by (simp_all add: check_limit_memory_def s0_def)
        show ?thesis
          unfolding rs kind_of_def decide_def using conc mc2 f1 f2 cfg0 m h ok False
          by (auto simp: count_of_def)
      next
        case True
        obtain r3 s3 where c3: "check_token_limit s2 i est clk = (r3, s3)" by (cases "check_token_limit s2 i est clk")
        note f3 = check_token_limit_cases [OF c3 m]
        from assms c1 c2 c3 Inr Inr2 True have rs: "r = (case r3 of Inl e \<Rightarrow> Inl e | Inr _ \<Rightarrow> Inr True)" "s' = s3"
          by (simp_all add: check_limit_memory_def s0_def split: sum.splits)
        show ?thesis
          unfolding rs kind_of_def decide_def using conc mc2 f1 f2 f3 cfg0 m h ok True
          by (auto simp: count_of_def tokens_of_def split: if_splits)
      qed
    qed
  qed
qed

lemma check_limit_memory_retry:
  assumes "check_limit_memory s i est clk = (Inl e, s')"
  shows "(limit_type e = ''concurrent'' \<and> retry_after e = Some 1) \<or>
         ((limit_type e = ''requests_per_minute'' \<or> limit_type e = ''tokens_per_minute'') \<and>
            (\<exists>m. minute_state_of s' i = Some m \<and>
                 retry_after e = Some (max 0 (60 - (now clk - window_start m))))) \<or>
         (limit_type e = ''requests_per_hour'' \<and>
            (\<exists>h. hour_state_of s' i = Some h \<and>
                 retry_after e = Some (max 0 (3600 - (now clk - window_start h)))))"
proof -
  define s0 where "s0 = cleanup_windows s (now clk)"
  obtain r1 s1 where c1: "check_concurrent_limit s0 i = (r1, s1)" by (cases "check_concurrent_limit s0 i")
  note f1 = check_concurrent_limit_cases [OF c1]
  show ?thesis
  proof (cases r1)
    case (Inl e1)
    with assms c1 have "e = e1" by (simp add: check_limit_memory_def s0_def)
    with f1 Inl show ?thesis by (auto split: if_splits)
  next
    case (Inr u)
    obtain r2 s2 where c2: "check_request_limit s1 i clk = (r2, s2)" by (cases "check_request_limit s1 i clk")
    note f2 = check_request_limit_cases [OF c2]
    from f2 obtain m where m: "minute_state_of s2 i = Some m" by blast
    show ?thesis
    proof (cases r2)
      case (Inl e2)
      with assms c1 c2 Inr have rs: "e = e2" "s' = s2" by (simp_all add: check_limit_memory_def s0_def)
      from f2 Inl m show ?thesis unfolding rs by (auto split: if_splits)
    next
      case Inr2: (Inr u2)
      show ?thesis
      proof (cases "est > 0")
        case False
        with assms c1 c2 Inr Inr2 show ?thesis by (simp add: check_limit_memory_def s0_def)
      next
        case True
        obtain r3 s3 where c3: "check_token_limit s2 i est clk = (r3, s3)" by (cases "check_token_limit s2 i est clk")
        note f3 = check_token_limit_cases [OF c3 m]
        from assms c1 c2 c3 Inr Inr2 True have rs: "r3 = Inl e" "s' = s3"
          by (simp_all add: check_limit_memory_def s0_def split: sum.splits)
        from f3 rs m show ?thesis by (auto split: if_splits)
      qed
    qed
  qed
qed

lemma py_mod_bounds: "0 < y \<Longrightarrow> 0 \<le> py_mod x y \<and> py_mod x y < y"
  using floor_divide_lower [of y x] floor_divide_upper [of y x]
  by (simp add: py_mod_def algebra_simps)

lemma get_concurrent_read:
  "backend_wf b \<Longrightarrow> \<exists>b1. backend_wf b1 \<and> get_concurrent b srv i = (redis_read b srv (make_key b i ''concurrent''), b1) \<and>
        backend_config b1 = backend_config b \<and> live b1 srv = live b srv"
  by (auto simp: get_concurrent_def ensure_connected_def redis_read_def live_def make_key_def Let_def backend_wf_def
        split: option.splits bool.splits if_splits)

lemma get_count_read:
  "backend_wf b \<Longrightarrow> \<exists>b1. backend_wf b1 \<and> get_count b srv i w = (redis_read b srv (make_key b i w), b1) \<and>
        backend_config b1 = backend_config b \<and> live b1 srv = live b srv"
  by (auto simp: get_count_def ensure_connected_def redis_read_def live_def make_key_def Let_def backend_wf_def
        split: option.splits bool.splits if_splits)

lemma redis_read_cong:
  "backend_config b1 = backend_config b \<Longrightarrow> live b1 srv = live b srv \<Longrightarrow>
     redis_read b1 srv (make_key b1 i w) = redis_read b srv (make_key b i w)"
  by (simp add: redis_read_def make_key_def)


lemma check_limit_redis_retry:
  "check_limit_redis b srv cfg i est t = (Inl e, b') \<Longrightarrow>
     (limit_type e = ''concurrent'' \<and> retry_after e = Some 1) \<or>
     (limit_type e = ''requests_per_minute'' \<and> retry_after e = Some (60 - py_mod t 60)) \<or>
     (limit_type e = ''requests_per_hour'' \<and> retry_after e = Some (3600 - py_mod t 3600))"
  by (auto simp: check_limit_redis_def Let_def split: prod.splits if_splits)

lemma aligned_hint:
  "0 < y \<Longrightarrow> y - py_mod t y = max 0 (y - (t - y * of_int (py_floordiv t y)))"
  using py_mod_bounds [of y t] by (simp add: py_mod_def py_floordiv_def)

subsection \<open>Identifier resolution\<close>

text \<open>
  Claim C8. \<^verbatim>\<open>_get_identifier\<close> returns the user id when one is present; otherwise it fails
  with the identity-required error (\<^verbatim>\<open>limit_type="authentication"\<close>) when the configuration
  requires a user id; otherwise it returns \<^verbatim>\<open>"session:" + session_id\<close> when the session
  fallback is enabled and a session id is present; otherwise it returns \<^verbatim>\<open>"anonymous"\<close>.
  "Present" is the truth value that the source tests (\<^verbatim>\<open>if user_id:\<close>): neither
  \<^verbatim>\<open>None\<close> nor the empty string.
\<close>

theorem C8_identifier_resolution:
  "(\<forall>u. user_id = Some u \<and> u \<noteq> [] \<longrightarrow> get_identifier cfg user_id session_id = Inr u) \<and>
   (user_id = None \<or> user_id = Some [] \<longrightarrow>
      (require_user_id cfg \<longrightarrow>
         get_identifier cfg user_id session_id = Inl (RateLimitExceeded ''authentication'' None)) \<and>
      (\<not> require_user_id cfg \<longrightarrow>
         (\<forall>x. fallback_to_session cfg \<and> session_id = Some x \<and> x \<noteq> [] \<longrightarrow>
              get_identifier cfg user_id session_id = Inr (''session:'' @ x)) \<and>
         (\<not> fallback_to_session cfg \<or> session_id = None \<or> session_id = Some [] \<longrightarrow>
              get_identifier cfg user_id session_id = Inr ''anonymous'')))"
  by (auto simp: get_identifier_def truthy_def split: option.splits)

theorem C8_identifier_resolution_witness:
  "get_identifier default_config (Some ''alice'') (Some ''s1'') = Inr ''alice'' \<and>
   get_identifier (default_config\<lparr>require_user_id := True\<rparr>) None (Some ''s1'')
     = Inl (RateLimitExceeded ''authentication'' None) \<and>
   get_identifier default_config (Some []) (Some ''s1'') = Inr ''session:s1'' \<and>
   get_identifier default_config None None = Inr ''anonymous''"
  using C8_identifier_resolution [of "Some ''alice''" default_config "Some ''s1''"]
        C8_identifier_resolution [of None "default_config\<lparr>require_user_id := True\<rparr>" "Some ''s1''"]
        C8_identifier_resolution [of "Some []" default_config "Some ''s1''"]
        C8_identifier_resolution [of None default_config None]
  by (simp add: default_config_def)

subsection \<open>A disabled limiter\<close>

text \<open>
  Claim C10. The flag \<^verbatim>\<open>_enabled\<close> is the configuration's \<^verbatim>\<open>enabled\<close>. While it is false,
  \<^verbatim>\<open>check_limit\<close> returns \<^verbatim>\<open>True\<close> and \<^verbatim>\<open>record_request\<close>, \<^verbatim>\<open>acquire_concurrent_slot\<close> and
  \<^verbatim>\<open>release_concurrent_slot\<close> return without changing the limiter or the Redis server,
  for every input: the identifier is never resolved, so no identity-required error is
  raised even when \<^verbatim>\<open>require_user_id\<close> is set and no id is supplied.
\<close>

theorem C10_disabled_is_inert:
  "enabled_flag (RateLimiter_init cfg t_minute t_hour) = enabled cfg \<and>
   (\<not> enabled_flag s \<longrightarrow>
      check_limit s srv user_id estimated_tokens session_id clk = (Inr True, s) \<and>
      record_request s srv user_id tokens_used session_id clk = (Inr (), s, srv) \<and>
      acquire_concurrent_slot s srv user_id session_id = (Inr (), s, srv) \<and>
      release_concurrent_slot s srv user_id session_id = (Inr (), s, srv))"
  by (simp add: RateLimiter_init_def check_limit_def record_request_def
        acquire_concurrent_slot_def release_concurrent_slot_def)

theorem C10_disabled_is_inert_witness:
  "\<not> enabled_flag (RateLimiter_init (default_config\<lparr>enabled := False, require_user_id := True\<rparr>) 0 0) \<and>
   check_limit (RateLimiter_init (default_config\<lparr>enabled := False, require_user_id := True\<rparr>) 0 0)
       server_down None 5 None (clock_at 7)
     = (Inr True, RateLimiter_init (default_config\<lparr>enabled := False, require_user_id := True\<rparr>) 0 0) \<and>
   record_request (RateLimiter_init (default_config\<lparr>enabled := False, require_user_id := True\<rparr>) 0 0)
       server_down None 5 None (clock_at 7)
     = (Inr (), RateLimiter_init (default_config\<lparr>enabled := False, require_user_id := True\<rparr>) 0 0,
        server_down)"
  using C10_disabled_is_inert
          [of "default_config\<lparr>enabled := False, require_user_id := True\<rparr>" 0 0
              "RateLimiter_init (default_config\<lparr>enabled := False, require_user_id := True\<rparr>) 0 0"
              server_down None 5 None "clock_at 7" 5]
  by (simp add: default_config_def)

subsection \<open>Rollover of a stale window\<close>

text \<open>
  Claim C1. A check that observes a stale window zeroes the window's request count and its
  token count and sets \<^verbatim>\<open>window_start = now\<close>, so that after a clock advance of a period a
  check for a saturated identifier succeeds with the counters at zero. The source resets
  \<^verbatim>\<open>count\<close> and \<^verbatim>\<open>window_start\<close> only: \<^verbatim>\<open>tokens\<close> is never reset by a rollover. The
  evaluation below runs a fresh limiter: one request that used 150000 tokens is recorded
  at time 0, and a check for one more token at time 60 finds the minute window stale,
  rolls it over (count 0, window start 60), keeps the 150000 tokens and rejects.
\<close>

theorem C1_tokens_survive_rollover:
  "(case record_request (RateLimiter_init default_config 0 0) server_down (Some ''u'') 150000 None (clock_at 0) of
      (r1, s1, srv1) \<Rightarrow>
        (case check_limit s1 srv1 (Some ''u'') 1 None (clock_at 60) of
           (r2, s2) \<Rightarrow>
             r1 = Inr () \<and>
             r2 = Inl (RateLimitExceeded ''tokens_per_minute'' (Some 60)) \<and>
             count_of (minute_state_of s2 ''u'') = 0 \<and>
             map_option window_start (minute_state_of s2 ''u'') = Some 60 \<and>
             tokens_of (minute_state_of s2 ''u'') = 150000))"
  by (simp add: ops_defs Let_def)

subsection \<open>Order of the limits\<close>

text \<open>
  Claim C2. With either backend the limits are evaluated in the order concurrency, minute
  requests, hour requests, minute tokens, the last whenever \<^verbatim>\<open>estimated_tokens > 0\<close>.
  \<^verbatim>\<open>_check_limit_redis\<close> receives \<^verbatim>\<open>estimated_tokens\<close> and never reads it: with a connected
  Redis backend a request estimated at 200000 tokens passes, while the in-memory path
  rejects the same request of the same fresh limiter against the ceiling of 150000.
\<close>

theorem C2_redis_skips_token_limit:
  "fst (check_limit (RateLimiter_init (default_config\<lparr>use_redis := True\<rparr>) 0 0) server_up
          (Some ''u'') 200000 None (clock_at 0)) = Inr True \<and>
   fst (check_limit (RateLimiter_init default_config 0 0) server_up
          (Some ''u'') 200000 None (clock_at 0)) = Inl (RateLimitExceeded ''tokens_per_minute'' (Some 60))"
  by (simp add: ops_defs Let_def)

subsection \<open>A failing Redis backend\<close>

text \<open>
  Claim C4. While the Redis backend is enabled and failing, \<^verbatim>\<open>check_limit\<close> and
  \<^verbatim>\<open>record_request\<close> raise no infrastructure error and decide against the in-memory state.
  The first half holds; the second does not: \<^verbatim>\<open>check_limit\<close> keeps to the Redis path, whose
  reads all return 0, and \<^verbatim>\<open>record_request\<close> records nowhere. With an unreachable server
  a request estimated at 200000 tokens passes, although the in-memory check of the same
  limiter rejects it, and a recorded request leaves the in-memory windows untouched.
\<close>

theorem C4_no_fallback_to_memory:
  "fst (check_limit (RateLimiter_init (default_config\<lparr>use_redis := True\<rparr>) 0 0) server_down
          (Some ''u'') 200000 None (clock_at 0)) = Inr True \<and>
   fst (check_limit_memory (RateLimiter_init (default_config\<lparr>use_redis := True\<rparr>) 0 0)
          ''u'' 200000 (clock_at 0)) = Inl (RateLimitExceeded ''tokens_per_minute'' (Some 60)) \<and>
   (case record_request (RateLimiter_init (default_config\<lparr>use_redis := True\<rparr>) 0 0) server_down
          (Some ''u'') 5 None (clock_at 0) of
      (r, s1, srv1) \<Rightarrow> r = Inr () \<and> srv1 = server_down \<and>
         user_minute_state s1 = Map.empty \<and> user_hour_state s1 = Map.empty \<and>
         global_minute_state s1 = new_RateLimitState 0 \<and> global_hour_state s1 = new_RateLimitState 0)"
  by (simp add: ops_defs Let_def)

subsection \<open>Retry hints\<close>

text \<open>
  Claim C9. A rejected minute-window check (request count or token budget) carries
  \<^verbatim>\<open>retry_after = 60 - (now - window_start)\<close> clamped to at least 0, a rejected hour-window
  check the same with 3600, and a concurrency rejection the fixed hint of 1 second. The
  window start is the \<^verbatim>\<open>window_start\<close> of the in-memory state as the check leaves it (after a
  rollover), and with the Redis backend the start of the window that the key names, for
  which the source computes \<^verbatim>\<open>60 - (now % 60)\<close>. Once the identifier is resolved these are
  the only rejections.
\<close>

theorem C9_retry_hints:
  assumes ident: "get_identifier (config s) user_id session_id = Inr i"
    and rej: "fst (check_limit s srv user_id estimated_tokens session_id clk) = Inl e"
  shows "(limit_type e = ''concurrent'' \<longrightarrow> retry_after e = Some 1) \<and>
         (limit_type e = ''requests_per_minute'' \<or> limit_type e = ''tokens_per_minute'' \<longrightarrow>
            (\<exists>ws. minute_window_start (snd (check_limit s srv user_id estimated_tokens session_id clk)) i (now clk) = Some ws \<and>
                  retry_after e = Some (max 0 (60 - (now clk - ws))))) \<and>
         (limit_type e = ''requests_per_hour'' \<longrightarrow>
            (\<exists>ws. hour_window_start (snd (check_limit s srv user_id estimated_tokens session_id clk)) i (now clk) = Some ws \<and>
                  retry_after e = Some (max 0 (3600 - (now clk - ws))))) \<and>
         limit_type e \<in> {''concurrent'', ''requests_per_minute'', ''requests_per_hour'', ''tokens_per_minute''}"
proof -
  from rej have en: "enabled_flag s" by (auto simp: check_limit_def split: if_splits)
  show ?thesis
  proof (cases "redis_active s")
    case True
    then obtain b where b: "redis_backend s = Some b" and ur: "use_redis (config s)"
      by (auto simp: redis_active_def)
    obtain r b1 where c: "check_limit_redis b srv (config s) i estimated_tokens (now clk) = (r, b1)"
      by (cases "check_limit_redis b srv (config s) i estimated_tokens (now clk)")
    from en ident b ur c have eq: "check_limit s srv user_id estimated_tokens session_id clk = (r, s\<lparr>redis_backend := Some b1\<rparr>)"
      by (simp add: check_limit_def)
    with rej have r: "r = Inl e" by simp
    have act: "redis_active (s\<lparr>redis_backend := Some b1\<rparr>)" using ur by (simp add: redis_active_def)
    from check_limit_redis_retry [OF c [unfolded r]] show ?thesis
      unfolding eq snd_conv minute_window_start_def hour_window_start_def
      using act aligned_hint [of 60 "now clk"] aligned_hint [of 3600 "now clk"]
      by auto
  next
    case False
    with en ident have eq: "check_limit s srv user_id estimated_tokens session_id clk = check_limit_memory s i estimated_tokens clk"
      by (auto simp: check_limit_def redis_active_def split: option.splits)
    obtain r s' where c: "check_limit_memory s i estimated_tokens clk = (r, s')"
      by (cases "check_limit_memory s i estimated_tokens clk")
    with rej eq have r: "r = Inl e" by simp
    from check_limit_memory_result [OF c] False have nact: "\<not> redis_active s'"
      by (simp add: redis_active_def)
    from check_limit_memory_retry [OF c [unfolded r]] show ?thesis
      unfolding eq c snd_conv minute_window_start_def hour_window_start_def
      using nact by auto
  qed
qed

theorem C9_retry_hints_witness:
  "get_identifier (config (RateLimiter_init (default_config\<lparr>requests_per_minute := 0\<rparr>) 0 0))
       (Some ''u'') None = Inr ''u'' \<and>
   fst (check_limit (RateLimiter_init (default_config\<lparr>requests_per_minute := 0\<rparr>) 0 0) server_down
          (Some ''u'') 0 None (clock_at 10)) = Inl (RateLimitExceeded ''requests_per_minute'' (Some 60)) \<and>
   minute_window_start (snd (check_limit (RateLimiter_init (default_config\<lparr>requests_per_minute := 0\<rparr>) 0 0)
          server_down (Some ''u'') 0 None (clock_at 10))) ''u'' 10 = Some 10"
  using C9_retry_hints [of "RateLimiter_init (default_config\<lparr>requests_per_minute := 0\<rparr>) 0 0"
          "Some ''u''" None "''u''" server_down 0 "clock_at 10"
          "RateLimitExceeded ''requests_per_minute'' (Some 60)"]
  by (simp add: ops_defs Let_def minute_window_start_def redis_active_def)

end
